theory Spec2Isabelle
  imports Complex_Main
begin

section \<open>Values of the host language\<close>

text \<open>
  A JavaScript number is modelled as a real: every finite double is one, and the program
  only copies numbers, compares them with \<open>0\<close> and rounds them, which is exact. NaN
  and the infinities are left out. A string is the list of its code units, and a
  \<open>char\<close> is a code unit below 256: \<open>CHR n\<close> is the code unit \<open>n\<close>. A string
  with a code unit from 256 on is not a value of the model. A thrown \<open>Error\<close> object
  has a message and an optional \<open>cause\<close> property.
\<close>

type_synonym number = real

datatype js_error = JsError (message: string) (cause: "js_error option")

text \<open>
  \<open>new Error(message, options)\<close>: the constructor installs a \<open>cause\<close> on the new
  object only when \<open>options\<close> is an object that has a property named \<open>cause\<close>, and
  then the installed value is \<open>options.cause\<close>. Here the only objects passed as
  \<open>options\<close> are \<open>Error\<close> objects, whose \<open>cause\<close> property is present exactly when
  their own cause is set.
\<close>

definition new_Error :: "string \<Rightarrow> js_error option \<Rightarrow> js_error" where
  "new_Error msg options =
     JsError msg (case options of None \<Rightarrow> None | Some opts \<Rightarrow> cause opts)"

text \<open>
  A promise is modelled by how it settles: fulfilled with a value, rejected with a thrown
  value, or never settled.
\<close>

datatype ('a, 'e) promise = Fulfilled 'a | Rejected 'e | Pending

section \<open>utils.ts: the Result wrapper\<close>

text \<open>
  \<open>Result<T, E>\<close> is an object with the optional properties \<open>data\<close> and \<open>error\<close>;
  \<open>None\<close> is an absent property.
\<close>

record ('a, 'e) Result =
  data :: "'a option"
  error :: "'e option"

text \<open>
  \<open>tryCatch\<close> awaits the promise inside \<open>try\<close>: a fulfilled promise gives
  \<open>{ data }\<close>, a rejected one is caught and gives \<open>{ error }\<close>. While the awaited promise
  is pending, so is the promise of \<open>tryCatch\<close>.
\<close>

definition tryCatch :: "('a, 'e) promise \<Rightarrow> (('a, 'e) Result, 'e) promise" where
  "tryCatch p =
     (case p of
        Fulfilled d \<Rightarrow> Fulfilled \<lparr>data = Some d, error = None\<rparr>
      | Rejected e \<Rightarrow> Fulfilled \<lparr>data = None, error = Some e\<rparr>
      | Pending \<Rightarrow> Pending)"

section \<open>The domain model\<close>

datatype UsageMode = ALWAYS_ON | ON_DEMAND

datatype Region = US | EU | ASIA | NOT_SPECIFIED

text \<open>The string value of each enum member, as the source declares it.\<close>

fun UsageMode_value :: "UsageMode \<Rightarrow> string" where
  "UsageMode_value ALWAYS_ON = ''ALWAYS_ON''"
| "UsageMode_value ON_DEMAND = ''ON_DEMAND''"

fun Region_value :: "Region \<Rightarrow> string" where
  "Region_value US = ''US''"
| "Region_value EU = ''EU''"
| "Region_value ASIA = ''ASIA''"
| "Region_value NOT_SPECIFIED = ''Not Specified''"

text \<open>
  A parsed JSON value. An object is the list of its members in the order of the text; a
  later member overrides an earlier one with the same key, as \<open>JSON.parse\<close> does.
\<close>

datatype json =
    JNull
  | JBool bool
  | JNumber number
  | JString string
  | JArray "json list"
  | JObject "(string \<times> json) list"

definition obj_get :: "(string \<times> json) list \<Rightarrow> string \<Rightarrow> json option" where
  "obj_get members k = map_of (rev members) k"

text \<open>
  The classes of the domain model, each with the private fields of the source. Two classes
  have a field \<open>name\<close>, told apart as \<open>Appliance.name\<close> and \<open>Scenario.name\<close>.
  The fields \<open>start\<close> and \<open>end\<close> of a time window and \<open>value\<close> of a
  contribution carry a prefix, since Isabelle reserves these words.
\<close>

record Appliance =
  name :: string
  powerConsumption :: number
  embodiedEmissions :: number
  usageMode :: UsageMode
  parameters :: "string \<rightharpoonup> json"

text \<open>A \<open>Date\<close> holds a time value in milliseconds, or is an invalid date (time value NaN).\<close>

datatype Date = Date int | Invalid_Date

record TimeWindow =
  tw_start :: Date
  tw_end :: Date

record Household =
  region :: Region
  timeWindow :: TimeWindow
  appliances :: "Appliance list"

record Scenario =
  name :: string
  household :: Household

record CO2Contribution =
  appliance :: Appliance
  contribution_value :: number

section \<open>The appliance schema\<close>

text \<open>
  The schema library reports each violation as an issue with a code and the path of the
  offending value. Only whether there are issues decides the loader's result.
\<close>

datatype zod_issue_code = invalid_type | too_small | invalid_enum_value

datatype path_segment = Index nat | Key string

datatype ZodIssue = ZodIssue zod_issue_code "path_segment list"

text \<open>
  \<open>String.prototype.trim\<close> removes white space and line terminators from both ends.
  Of these, the code units below 256 are tab, line feed, vertical tab, form feed, carriage
  return, space and the no-break space U+00A0. The others (U+1680, U+2000 to U+200A,
  U+2028, U+2029, U+202F, U+205F, U+3000 and U+FEFF) are not values of \<open>char\<close>.
\<close>

definition isWhiteSpace :: "char \<Rightarrow> bool" where
  "isWhiteSpace c =
     (c \<in> set [CHR 0x09, CHR 0x0A, CHR 0x0B, CHR 0x0C, CHR 0x0D, CHR 0x20, CHR 0xA0])"

definition trim :: "string \<Rightarrow> string" where
  "trim s = rev (dropWhile isWhiteSpace (rev (dropWhile isWhiteSpace s)))"

text \<open>\<open>z.string().trim().min(1)\<close>: a string; it is trimmed, then its length is checked.\<close>

definition parse_name :: "path_segment list \<Rightarrow> json option \<Rightarrow> ZodIssue list + string" where
  "parse_name p v =
     (case v of
        Some (JString s) \<Rightarrow>
          (let t = trim s in if 1 \<le> length t then Inr t else Inl [ZodIssue too_small p])
      | _ \<Rightarrow> Inl [ZodIssue invalid_type p])"

text \<open>\<open>z.number().min(0)\<close>.\<close>

definition parse_number_min0 :: "path_segment list \<Rightarrow> json option \<Rightarrow> ZodIssue list + number" where
  "parse_number_min0 p v =
     (case v of
        Some (JNumber x) \<Rightarrow> if 0 \<le> x then Inr x else Inl [ZodIssue too_small p]
      | _ \<Rightarrow> Inl [ZodIssue invalid_type p])"

text \<open>\<open>z.nativeEnum(UsageMode)\<close>: one of the string values of the enum.\<close>

definition parse_usageMode :: "path_segment list \<Rightarrow> json option \<Rightarrow> ZodIssue list + UsageMode" where
  "parse_usageMode p v =
     (case v of
        Some (JString s) \<Rightarrow>
          if s = ''ALWAYS_ON'' then Inr ALWAYS_ON
          else if s = ''ON_DEMAND'' then Inr ON_DEMAND
          else Inl [ZodIssue invalid_enum_value p]
      | Some (JNumber x) \<Rightarrow> Inl [ZodIssue invalid_enum_value p]
      | _ \<Rightarrow> Inl [ZodIssue invalid_type p])"

text \<open>
  The schema library builds the output object of a record from the parsed members, and it
  leaves out a member whose key is \<open>__proto__\<close>.
\<close>

definition mergeObjectSync :: "(string \<times> json) list \<Rightarrow> (string \<times> json) list" where
  "mergeObjectSync pairs = filter (\<lambda>(key, v). key \<noteq> ''__proto__'') pairs"

text \<open>
  \<open>z.record(z.any()).optional()\<close>: absent, or an object with any values; the output
  is the object that the library builds from its members.
\<close>

definition parse_parameters ::
  "path_segment list \<Rightarrow> json option \<Rightarrow> ZodIssue list + (string \<times> json) list option" where
  "parse_parameters p v =
     (case v of
        None \<Rightarrow> Inr None
      | Some (JObject ps) \<Rightarrow> Inr (Some (mergeObjectSync ps))
      | _ \<Rightarrow> Inl [ZodIssue invalid_type p])"

text \<open>The output of \<open>ApplianceSchema\<close> for one entry.\<close>

datatype ApplianceData =
  ApplianceData string number number UsageMode "(string \<times> json) list option"

definition issues_of :: "ZodIssue list + 'a \<Rightarrow> ZodIssue list" where
  "issues_of r = (case r of Inl issues \<Rightarrow> issues | Inr _ \<Rightarrow> [])"

definition ApplianceSchema_parse :: "path_segment list \<Rightarrow> json \<Rightarrow> ZodIssue list + ApplianceData" where
  "ApplianceSchema_parse p j =
     (case j of
        JObject members \<Rightarrow>
          (let n = parse_name (p @ [Key ''name'']) (obj_get members ''name'');
               pc = parse_number_min0 (p @ [Key ''powerConsumption''])
                      (obj_get members ''powerConsumption'');
               ee = parse_number_min0 (p @ [Key ''embodiedEmissions''])
                      (obj_get members ''embodiedEmissions'');
               um = parse_usageMode (p @ [Key ''usageMode'']) (obj_get members ''usageMode'');
               ps = parse_parameters (p @ [Key ''parameters'']) (obj_get members ''parameters'')
           in case (n, pc, ee, um, ps) of
                (Inr n', Inr pc', Inr ee', Inr um', Inr ps') \<Rightarrow>
                  Inr (ApplianceData n' pc' ee' um' ps')
              | _ \<Rightarrow>
                  Inl (issues_of n @ issues_of pc @ issues_of ee @ issues_of um @ issues_of ps))
      | _ \<Rightarrow> Inl [ZodIssue invalid_type p])"

text \<open>\<open>z.array(ApplianceSchema)\<close>: every element is parsed and all issues are collected.\<close>

fun parse_elements :: "nat \<Rightarrow> json list \<Rightarrow> ZodIssue list + ApplianceData list" where
  "parse_elements i [] = Inr []"
| "parse_elements i (e # es) =
     (case (ApplianceSchema_parse [Index i] e, parse_elements (Suc i) es) of
        (Inr d, Inr ds) \<Rightarrow> Inr (d # ds)
      | (r, rs) \<Rightarrow> Inl (issues_of r @ issues_of rs))"

definition AppliancesSchema_safeParse :: "json \<Rightarrow> ZodIssue list + ApplianceData list" where
  "AppliancesSchema_safeParse j =
     (case j of
        JArray es \<Rightarrow> parse_elements 0 es
      | _ \<Rightarrow> Inl [ZodIssue invalid_type []])"

section \<open>The host environment\<close>

text \<open>
  What the runtime supplies and the program only calls: the outcome of reading a file as
  text, \<open>JSON.parse\<close> (a thrown error or the parsed value), the message of a schema
  error, the rendering of numbers and dates, the parsing of a date string and
  \<open>parseInt\<close> (\<open>None\<close> is NaN).
\<close>

record host =
  Bun_file_text :: "string \<Rightarrow> (string, js_error) promise"
  JSON_parse :: "string \<Rightarrow> js_error + json"
  ZodError_message :: "ZodIssue list \<Rightarrow> string"
  Number_toString :: "number \<Rightarrow> string"
  Date_toLocaleString :: "Date \<Rightarrow> string"
  Date_parse :: "string \<Rightarrow> Date"
  parseInt :: "string \<Rightarrow> int option"

section \<open>The appliance loader\<close>

text \<open>
  The callback of \<open>validatedData.data.map\<close>: the members of \<open>parameters\<close>, when the
  record has them, are set on a fresh map in order.
\<close>

fun toAppliance :: "ApplianceData \<Rightarrow> Appliance" where
  "toAppliance (ApplianceData n pc ee um ps) =
     \<lparr>Appliance.name = n, powerConsumption = pc, embodiedEmissions = ee, usageMode = um,
      parameters =
        (case ps of
           None \<Rightarrow> Map.empty
         | Some members \<Rightarrow> fold (\<lambda>(k, v) m. m(k \<mapsto> v)) members Map.empty)\<rparr>"

text \<open>
  \<open>ApplianceLoader.loadAppliancesFromFile\<close>. Every thrown value is an object, so
  \<open>if (fileResult.error)\<close> tests whether the property is there. The read error is passed
  to \<open>new Error\<close> in the place of its \<open>options\<close>. A result without \<open>data\<close> would make
  \<open>JSON.parse\<close> read the text \<open>undefined\<close>.
\<close>

definition loadAppliancesFromFile :: "host \<Rightarrow> string \<Rightarrow> (Appliance list, js_error) promise" where
  "loadAppliancesFromFile h filePath =
     (case tryCatch (Bun_file_text h filePath) of
        Pending \<Rightarrow> Pending
      | Rejected x \<Rightarrow> Rejected x
      | Fulfilled fileResult \<Rightarrow>
          (case error fileResult of
             Some e \<Rightarrow>
               Rejected (new_Error (''Error reading file '' @ filePath @ '':'') (Some e))
           | None \<Rightarrow>
               (case JSON_parse h (case data fileResult of Some t \<Rightarrow> t | None \<Rightarrow> ''undefined'') of
                  Inl e \<Rightarrow> Rejected e
                | Inr jsonData \<Rightarrow>
                    (case AppliancesSchema_safeParse jsonData of
                       Inl issues \<Rightarrow>
                         Rejected
                           (new_Error (''Zod validation error:'' @ ZodError_message h issues) None)
                     | Inr validatedData \<Rightarrow> Fulfilled (map toAppliance validatedData)))))"

section \<open>The console, the clock and the random source\<close>

text \<open>
  What the console shows: a line written by \<open>console.log\<close>, the message of a
  \<open>prompt\<close>, or the contributions that the report command logs as a value.
\<close>

datatype logged = Log string | Prompted string | LogContributions "CO2Contribution list"

text \<open>
  The world outside the program. \<open>stdin\<close> holds the values that the coming calls of
  \<open>prompt\<close> return, in order (\<open>None\<close> is \<open>null\<close>; at the end of the input \<open>prompt\<close>
  returns \<open>null\<close>). \<open>clock\<close> and \<open>random\<close> give the result of the n-th call of
  \<open>new Date()\<close> and of \<open>Math.random()\<close>.
\<close>

record world =
  stdin :: "string option list"
  stdout :: "logged list"
  clock :: "nat \<Rightarrow> int"
  clock_reads :: nat
  random :: "nat \<Rightarrow> number"
  random_reads :: nat

definition console_log :: "string \<Rightarrow> world \<Rightarrow> world" where
  "console_log msg w = w\<lparr>stdout := stdout w @ [Log msg]\<rparr>"

definition prompt :: "string \<Rightarrow> world \<Rightarrow> string option \<times> world" where
  "prompt msg w =
     (case stdin w of
        [] \<Rightarrow> (None, w\<lparr>stdout := stdout w @ [Prompted msg]\<rparr>)
      | answer # rest \<Rightarrow> (answer, w\<lparr>stdin := rest, stdout := stdout w @ [Prompted msg]\<rparr>))"

definition new_Date :: "world \<Rightarrow> Date \<times> world" where
  "new_Date w = (Date (clock w (clock_reads w)), w\<lparr>clock_reads := Suc (clock_reads w)\<rparr>)"

definition Math_random :: "world \<Rightarrow> number \<times> world" where
  "Math_random w = (random w (random_reads w), w\<lparr>random_reads := Suc (random_reads w)\<rparr>)"

text \<open>\<open>Math.round\<close>: the nearest integer, a tie going up.\<close>

definition Math_round :: "number \<Rightarrow> number" where
  "Math_round x = of_int \<lfloor>x + 1 / 2\<rfloor>"

text \<open>\<open>!input\<close> for the result of \<open>prompt\<close>: \<open>null\<close> and the empty string are falsy.\<close>

definition falsy :: "string option \<Rightarrow> bool" where
  "falsy input = (case input of None \<Rightarrow> True | Some s \<Rightarrow> s = [])"

text \<open>The text of an answer that is not \<open>null\<close>; \<open>null\<close> is never read (it is falsy).\<close>

definition text_of :: "string option \<Rightarrow> string" where
  "text_of input = (case input of None \<Rightarrow> ''null'' | Some s \<Rightarrow> s)"

definition nl :: string where
  "nl = [CHR 0x0A]"

text \<open>
  \<open>toLowerCase\<close> on ASCII letters. The program only compares the result with
  \<open>done\<close>, and no other letter lowercases to a letter of that word.
\<close>

definition lower_char :: "char \<Rightarrow> char" where
  "lower_char c =
     (case map_of (zip ''ABCDEFGHIJKLMNOPQRSTUVWXYZ'' ''abcdefghijklmnopqrstuvwxyz'') c of
        Some l \<Rightarrow> l
      | None \<Rightarrow> c)"

definition toLowerCase :: "string \<Rightarrow> string" where
  "toLowerCase s = map lower_char s"

text \<open>A non-negative integer in a template string: its decimal digits.\<close>

fun nat_toString :: "nat \<Rightarrow> string" where
  "nat_toString n =
     (if n < 10 then [''0123456789'' ! n]
      else nat_toString (n div 10) @ [''0123456789'' ! (n mod 10)])"

declare nat_toString.simps [simp del]

fun join :: "string \<Rightarrow> string list \<Rightarrow> string" where
  "join sep [] = []"
| "join sep [x] = x"
| "join sep (x # y # ys) = x @ sep @ join sep (y # ys)"

section \<open>String renderings\<close>

definition Appliance_toString :: "host \<Rightarrow> Appliance \<Rightarrow> string" where
  "Appliance_toString h a =
     Appliance.name a @ '': Power consumption: '' @ Number_toString h (powerConsumption a)
       @ '', Embodied emissions: '' @ Number_toString h (embodiedEmissions a)
       @ '', Usage mode: '' @ UsageMode_value (usageMode a) @ ''.''"

definition TimeWindow_toString :: "host \<Rightarrow> TimeWindow \<Rightarrow> string" where
  "TimeWindow_toString h t =
     Date_toLocaleString h (tw_start t) @ '' - '' @ Date_toLocaleString h (tw_end t)"

definition Household_toString :: "host \<Rightarrow> Household \<Rightarrow> string" where
  "Household_toString h hh =
     (let formatedAppliances = join nl (map (Appliance_toString h) (appliances hh))
      in Region_value (region hh) @ '', '' @ TimeWindow_toString h (timeWindow hh) @ '','' @ nl
           @ formatedAppliances)"

definition Scenario_toString :: "host \<Rightarrow> Scenario \<Rightarrow> string" where
  "Scenario_toString h s =
     ''Scenario: '' @ Scenario.name s @ '': Household: '' @ Household_toString h (household s)
       @ ''.''"

section \<open>Scenario.evaluate\<close>

text \<open>
  The callback of \<open>map\<close> runs once per appliance, in order, and each run draws one random
  number.
\<close>

fun evaluate_map :: "Appliance list \<Rightarrow> world \<Rightarrow> CO2Contribution list \<times> world" where
  "evaluate_map [] w = ([], w)"
| "evaluate_map (a # as) w =
     (let (r, w1) = Math_random w;
          c = \<lparr>appliance = a, contribution_value = Math_round r * 100\<rparr>;
          (cs, w2) = evaluate_map as w1
      in (c # cs, w2))"

definition Scenario_evaluate :: "Scenario \<Rightarrow> world \<Rightarrow> CO2Contribution list \<times> world" where
  "Scenario_evaluate s w = evaluate_map (appliances (household s)) w"

section \<open>The application controller\<close>

record App =
  possibleAppliances :: "Appliance list"
  scenarios :: "Scenario list"

definition new_App :: "Appliance list \<Rightarrow> App" where
  "new_App possible = \<lparr>possibleAppliances = possible, scenarios = []\<rparr>"

definition listAppliances :: "host \<Rightarrow> App \<Rightarrow> world \<Rightarrow> world" where
  "listAppliances h app w =
     (if length (possibleAppliances app) = 0
      then console_log ''No possible appliances found or error reading file'' w
      else fold (\<lambda>(index, a). console_log (nat_toString (index + 1) @ ''. '' @ Appliance_toString h a))
             (enumerate 0 (possibleAppliances app))
             (console_log (nl @ ''Possible appliances:'') w))"

definition listScenarios :: "host \<Rightarrow> App \<Rightarrow> world \<Rightarrow> world" where
  "listScenarios h app w =
     (if length (scenarios app) = 0
      then console_log ''No scenarios found or error reading file'' w
      else fold (\<lambda>(index, s). console_log (nat_toString (index + 1) @ ''. '' @ Scenario_toString h s))
             (enumerate 0 (scenarios app))
             (console_log (nl @ ''Scenarios:'') w))"

definition createScenario :: "App \<times> world \<Rightarrow> App \<times> world" where
  "createScenario st =
     (let (app, w) = st;
          name = ''scenario-'' @ nat_toString (length (scenarios app) + 1);
          (d1, w1) = new_Date w;
          (d2, w2) = new_Date w1;
          household = \<lparr>region = ASIA, timeWindow = \<lparr>tw_start = d1, tw_end = d2\<rparr>, appliances = []\<rparr>;
          newScenario = \<lparr>Scenario.name = name, household = household\<rparr>
      in (app\<lparr>scenarios := scenarios app @ [newScenario]\<rparr>, console_log ''Scenario created.'' w2))"

text \<open>\<open>Array.prototype.findIndex\<close>: the index of the first match, or \<open>-1\<close>.\<close>

fun findIndex :: "('a \<Rightarrow> bool) \<Rightarrow> 'a list \<Rightarrow> int" where
  "findIndex P [] = - 1"
| "findIndex P (x # xs) =
     (if P x then 0 else (let i = findIndex P xs in if i = - 1 then - 1 else i + 1))"

subsection \<open>The prompt steps of editScenario\<close>

definition getRegion :: "world \<Rightarrow> Region \<times> world" where
  "getRegion w =
     (let w1 = console_log
                 (nl @ ''Select a region:'' @ nl @ ''1. US'' @ nl @ ''2. EU'' @ nl @ ''3. ASIA'' @ nl
                    @ ''4. Not Specified'') w;
          (regionInput, w2) = prompt ''Enter region number (1-4):'' w1
      in if falsy regionInput then (NOT_SPECIFIED, w2)
         else if text_of regionInput = ''1'' then (US, w2)
         else if text_of regionInput = ''2'' then (EU, w2)
         else if text_of regionInput = ''3'' then (ASIA, w2)
         else (NOT_SPECIFIED, w2))"

text \<open>
  The default of each date prompt is computed from \<open>new Date()\<close> before the prompt is
  shown; the default itself only reaches the program through the prompt's answer.
\<close>

definition getTimeWindow :: "host \<Rightarrow> world \<Rightarrow> TimeWindow option \<times> world" where
  "getTimeWindow h w =
     (let w1 = console_log ''Setting time window...'' w;
          (today1, w2) = new_Date w1;
          (startDateInput, w3) = prompt ''Enter start date (YYYY-MM-DD):'' w2
      in if falsy startDateInput then (None, w3)
         else
           (let (startTimeInput, w4) = prompt ''Enter start time (HH:MM):'' w3
            in if falsy startTimeInput then (None, w4)
               else
                 (let (today2, w5) = new_Date w4;
                      (endDateInput, w6) = prompt ''Enter end date (YYYY-MM-DD):'' w5
                  in if falsy endDateInput then (None, w6)
                     else
                       (let (endTimeInput, w7) = prompt ''Enter end time (HH:MM):'' w6
                        in if falsy endTimeInput then (None, w7)
                           else
                             (let startDate =
                                    Date_parse h (text_of startDateInput @ ''T'' @ text_of startTimeInput);
                                  endDate =
                                    Date_parse h (text_of endDateInput @ ''T'' @ text_of endTimeInput)
                              in if startDate = Invalid_Date \<or> endDate = Invalid_Date
                                 then (None, console_log ''Invalid date or time format.'' w7)
                                 else (Some \<lparr>tw_start = startDate, tw_end = endDate\<rparr>, w7))))))"

definition getScenarioName :: "Scenario \<Rightarrow> world \<Rightarrow> string \<times> world" where
  "getScenarioName scenario w =
     (let (newName, w1) = prompt ''Enter a new name for the scenario:'' w
      in if falsy newName then (Scenario.name scenario, w1) else (text_of newName, w1))"

text \<open>
  The \<open>while (true)\<close> loop of \<open>getAppliances\<close>, with the list selected so far. Every
  round reads one answer; the loop ends at \<open>done\<close>, at an empty answer and at the end
  of the input.
\<close>

function getAppliances_loop ::
  "host \<Rightarrow> Appliance list \<Rightarrow> Appliance list \<Rightarrow> world \<Rightarrow> Appliance list \<times> world" where
  "getAppliances_loop h possible selectedAppliances w =
     (case prompt (''Enter appliance number or '' @ [CHR 0x27] @ ''done:'') w of
        (applianceIndexInput, w1) \<Rightarrow>
          if falsy applianceIndexInput \<or> toLowerCase (text_of applianceIndexInput) = ''done''
          then (selectedAppliances, w1)
          else
            (case parseInt h (text_of applianceIndexInput) of
               None \<Rightarrow>
                 getAppliances_loop h possible selectedAppliances
                   (console_log ''Invalid appliance number. Please try again.'' w1)
             | Some n \<Rightarrow>
                 (let applianceIndex = n - 1
                  in if applianceIndex < 0 \<or> int (length possible) \<le> applianceIndex
                     then getAppliances_loop h possible selectedAppliances
                            (console_log ''Invalid appliance number. Please try again.'' w1)
                     else getAppliances_loop h possible
                            (selectedAppliances @ [possible ! nat applianceIndex])
                            (console_log
                               (''Added '' @ Appliance_toString h (possible ! nat applianceIndex))
                               w1))))"
  by pat_completeness auto
termination
  by (relation "measure (\<lambda>(h, possible, selected, w). length (stdin w))")
     (auto simp: prompt_def console_log_def falsy_def split: list.splits)

definition getAppliances :: "host \<Rightarrow> Appliance list \<Rightarrow> world \<Rightarrow> Appliance list \<times> world" where
  "getAppliances h possible w = getAppliances_loop h possible [] w"

subsection \<open>The commands that ask for a scenario\<close>

definition editScenario :: "host \<Rightarrow> App \<times> world \<Rightarrow> App \<times> world" where
  "editScenario h st =
     (let (app, w) = st;
          w1 = listScenarios h app w
      in if length (scenarios app) = 0 then (app, w1)
         else
           (let (input, w2) = prompt ''Enter the name of the scenario to edit:'' w1
            in if falsy input then (app, w2)
               else
                 (let scenarioIndex =
                        findIndex (\<lambda>s. Scenario.name s = text_of input) (scenarios app)
                  in if scenarioIndex = - 1
                     then (app, console_log (''Scenario '' @ text_of input @ '' not found.'') w2)
                     else
                       (let originalScenario = scenarios app ! nat scenarioIndex;
                            (name, w3) = getScenarioName originalScenario w2;
                            (timeWindow, w4) = getTimeWindow h w3
                        in case timeWindow of
                             None \<Rightarrow> (app, w4)
                           | Some tw \<Rightarrow>
                               (let (region, w5) = getRegion w4;
                                    w6 = listAppliances h app w5
                                in if length (possibleAppliances app) = 0
                                   then (app, console_log ''No appliances available to add.'' w6)
                                   else
                                     (let w7 = console_log
                                                 (nl @ ''Add appliances to the scenario (enter ''
                                                    @ [CHR 0x27] @ ''done'' @ [CHR 0x27]
                                                    @ '' when finished):'') w6;
                                          (appliances, w8) =
                                            getAppliances h (possibleAppliances app) w7;
                                          household =
                                            \<lparr>region = region, timeWindow = tw,
                                             appliances = appliances\<rparr>;
                                          editedScenario =
                                            \<lparr>Scenario.name = name, household = household\<rparr>
                                      in (app\<lparr>scenarios := scenarios app @ [editedScenario]\<rparr>,
                                          console_log
                                            (''Scenario '' @ name @ '' created as a duplicate of ''
                                               @ Scenario.name originalScenario
                                               @ '' with your changes.'') w8)))))))"

text \<open>
  \<open>deleteScenario\<close> returns the filtered list (\<open>None\<close> is \<open>undefined\<close>) and assigns
  nothing to the controller.
\<close>

definition deleteScenario :: "host \<Rightarrow> App \<times> world \<Rightarrow> Scenario list option \<times> App \<times> world" where
  "deleteScenario h st =
     (let (app, w) = st;
          w1 = listScenarios h app w
      in if length (scenarios app) = 0 then (None, app, w1)
         else
           (let (input, w2) = prompt ''Enter the name of the scenario to delete:'' w1
            in if falsy input then (None, app, w2)
               else
                 (case find (\<lambda>s. Scenario.name s = text_of input) (scenarios app) of
                    None \<Rightarrow>
                      (None, app, console_log (''Scenario '' @ text_of input @ '' not found.'') w2)
                  | Some scenario \<Rightarrow>
                      (let newScenarios =
                             filter (\<lambda>s. Scenario.name s \<noteq> Scenario.name scenario) (scenarios app)
                       in (Some newScenarios, app,
                           console_log (''Scenario '' @ Scenario.name scenario @ '' deleted.'') w2)))))"

definition showScenarioReport :: "host \<Rightarrow> App \<times> world \<Rightarrow> App \<times> world" where
  "showScenarioReport h st =
     (let (app, w) = st;
          w1 = listScenarios h app w
      in if length (scenarios app) = 0 then (app, w1)
         else
           (let (input, w2) = prompt ''Enter the name of the scenario to show report:'' w1
            in if falsy input then (app, w2)
               else
                 (case find (\<lambda>s. Scenario.name s = text_of input) (scenarios app) of
                    None \<Rightarrow> (app, console_log (''Scenario '' @ text_of input @ '' not found.'') w2)
                  | Some scenario \<Rightarrow>
                      (let (contributions, w3) = Scenario_evaluate scenario w2
                       in (app, w3\<lparr>stdout := stdout w3 @ [LogContributions contributions]\<rparr>)))))"

section \<open>Notions of the specification\<close>

text \<open>
  A valid record, in the words of the specification: an object with a name that is not
  empty once trimmed, a power consumption and embodied emissions that are numbers not
  below zero, a usage mode that is one of the two enum values, and either no parameters
  or an object.
\<close>

definition valid_record :: "json \<Rightarrow> bool" where
  "valid_record e =
     (case e of
        JObject members \<Rightarrow>
          (case obj_get members ''name'' of Some (JString s) \<Rightarrow> trim s \<noteq> [] | _ \<Rightarrow> False) \<and>
          (case obj_get members ''powerConsumption'' of Some (JNumber x) \<Rightarrow> 0 \<le> x | _ \<Rightarrow> False) \<and>
          (case obj_get members ''embodiedEmissions'' of Some (JNumber x) \<Rightarrow> 0 \<le> x | _ \<Rightarrow> False) \<and>
          (case obj_get members ''usageMode'' of
             Some (JString s) \<Rightarrow> s = ''ALWAYS_ON'' \<or> s = ''ON_DEMAND''
           | _ \<Rightarrow> False) \<and>
          (case obj_get members ''parameters'' of
             None \<Rightarrow> True
           | Some (JObject ps) \<Rightarrow> True
           | _ \<Rightarrow> False)
      | _ \<Rightarrow> False)"

text \<open>
  An appliance carries a record when every field holds the record's value: the name with
  the white space at its ends removed, and the parameters as a mapping that is empty when
  the record has none and otherwise holds the members of the record's parameters other
  than a member named \<open>__proto__\<close>.
\<close>

definition carries :: "json \<Rightarrow> Appliance \<Rightarrow> bool" where
  "carries e a =
     (case e of
        JObject members \<Rightarrow>
          (case obj_get members ''name'' of
             Some (JString s) \<Rightarrow> Appliance.name a = trim s
           | _ \<Rightarrow> False) \<and>
          obj_get members ''powerConsumption'' = Some (JNumber (powerConsumption a)) \<and>
          obj_get members ''embodiedEmissions'' = Some (JNumber (embodiedEmissions a)) \<and>
          obj_get members ''usageMode'' = Some (JString (UsageMode_value (usageMode a))) \<and>
          (case obj_get members ''parameters'' of
             None \<Rightarrow> parameters a = Map.empty
           | Some (JObject ps) \<Rightarrow>
               parameters a = obj_get (filter (\<lambda>(key, v). key \<noteq> ''__proto__'') ps)
           | _ \<Rightarrow> False)
      | _ \<Rightarrow> False)"

text \<open>
  An entry that violates the schema in one of the three named ways: a negative power
  consumption, negative embodied emissions, or a usage mode that is neither enum value.
\<close>

definition violates :: "json \<Rightarrow> bool" where
  "violates e =
     (case e of
        JObject members \<Rightarrow>
          (case obj_get members ''powerConsumption'' of Some (JNumber x) \<Rightarrow> x < 0 | _ \<Rightarrow> False) \<or>
          (case obj_get members ''embodiedEmissions'' of Some (JNumber x) \<Rightarrow> x < 0 | _ \<Rightarrow> False) \<or>
          (case obj_get members ''usageMode'' of
             Some v \<Rightarrow> v \<noteq> JString ''ALWAYS_ON'' \<and> v \<noteq> JString ''ON_DEMAND''
           | None \<Rightarrow> False)
      | _ \<Rightarrow> False)"

text \<open>
  The region chosen from the numbered menu: 1, 2 and 3 pick US, EU and ASIA; anything else,
  an empty answer included, is NOT_SPECIFIED.
\<close>

definition selected_region :: "string option \<Rightarrow> Region" where
  "selected_region answer =
     (if answer = Some ''1'' then US
      else if answer = Some ''2'' then EU
      else if answer = Some ''3'' then ASIA
      else NOT_SPECIFIED)"

text \<open>
  The appliances picked by a sequence of answers: the answers up to the first \<open>done\<close>
  or empty answer are read in order, an answer that is a number from 1 to the size of the
  catalog adds the catalog entry with that number, and any other answer adds nothing.
\<close>

fun selected_appliances :: "host \<Rightarrow> Appliance list \<Rightarrow> string option list \<Rightarrow> Appliance list" where
  "selected_appliances h possible [] = []"
| "selected_appliances h possible (answer # answers) =
     (if falsy answer \<or> toLowerCase (text_of answer) = ''done'' then []
      else
        (case parseInt h (text_of answer) of
           Some n \<Rightarrow>
             if 1 \<le> n \<and> n \<le> int (length possible)
             then possible ! nat (n - 1) # selected_appliances h possible answers
             else selected_appliances h possible answers
         | None \<Rightarrow> selected_appliances h possible answers))"

text \<open>The placeholder household of a created scenario: no appliances, region ASIA.\<close>

definition placeholder :: "Scenario \<Rightarrow> bool" where
  "placeholder s = (appliances (household s) = [] \<and> region (household s) = ASIA)"

section \<open>Example inputs\<close>

text \<open>
  A host whose file system and JSON parser are given, with simple renderings; a catalog
  record with a chosen name, power consumption and usage mode; a record whose name starts
  with a space and whose parameters have a member named \<open>__proto__\<close>; a host whose
  catalog file holds a given JSON value; a host whose catalog file cannot be read; and a world with
  given prompt answers.
\<close>

definition example_host ::
  "(string \<Rightarrow> (string, js_error) promise) \<Rightarrow> (string \<Rightarrow> js_error + json) \<Rightarrow> host" where
  "example_host files parse =
     \<lparr>Bun_file_text = files,
      JSON_parse = parse,
      ZodError_message = (\<lambda>issues. ''[issues]''),
      Number_toString = (\<lambda>x. if x = 150 then ''150'' else if x = 50 then ''50'' else ''0''),
      Date_toLocaleString =
        (\<lambda>d. if d = Date 1704067200000 then ''1/1/2024, 12:00:00 AM''
             else if d = Date 1704153540000 then ''1/1/2024, 11:59:00 PM''
             else ''Invalid Date''),
      Date_parse =
        (\<lambda>s. if s = ''2024-01-01T00:00'' then Date 1704067200000
             else if s = ''2024-01-01T23:59'' then Date 1704153540000
             else Invalid_Date),
      parseInt = map_of [(''1'', 1), (''2'', 2), (''3'', 3), (''7'', 7)]\<rparr>"

definition fridge_record :: "string \<Rightarrow> number \<Rightarrow> string \<Rightarrow> json" where
  "fridge_record n pc um =
     JObject [(''name'', JString n), (''powerConsumption'', JNumber pc),
              (''embodiedEmissions'', JNumber 50), (''usageMode'', JString um)]"

definition untrimmed_record :: json where
  "untrimmed_record =
     JObject [(''name'', JString '' Fridge''), (''powerConsumption'', JNumber 150),
              (''embodiedEmissions'', JNumber 50), (''usageMode'', JString ''ALWAYS_ON''),
              (''parameters'',
               JObject [(''__proto__'', JNumber 1), (''colour'', JString ''white'')])]"

definition catalog_host :: "json \<Rightarrow> host" where
  "catalog_host j =
     example_host (\<lambda>path. Fulfilled ''catalog text'')
       (\<lambda>t. if t = ''catalog text'' then Inr j else Inl (JsError ''SyntaxError'' None))"

definition missing_file_host :: host where
  "missing_file_host =
     example_host (\<lambda>path. Rejected (JsError ''ENOENT: no such file or directory'' None))
       (\<lambda>t. Inl (JsError ''SyntaxError'' None))"

definition example_world :: "string option list \<Rightarrow> world" where
  "example_world answers =
     \<lparr>stdin = answers, stdout = [], clock = (\<lambda>n. 1704067200000 + int n), clock_reads = 0,
      random = (\<lambda>n. if even n then 1 / 4 else 3 / 4), random_reads = 0\<rparr>"

text \<open>
  Two appliances, a scenario with a given name and appliances, a controller with both
  appliances in its catalog and the scenario \<open>scenario-1\<close>, and the answers that take
  \<open>editScenario\<close> through the name, the new name, the time window and the region.
\<close>

definition fridge :: Appliance where
  "fridge = \<lparr>Appliance.name = ''Fridge'', powerConsumption = 150, embodiedEmissions = 50,
             usageMode = ALWAYS_ON, parameters = Map.empty\<rparr>"

definition kettle :: Appliance where
  "kettle = \<lparr>Appliance.name = ''Kettle'', powerConsumption = 50, embodiedEmissions = 0,
             usageMode = ON_DEMAND, parameters = Map.empty\<rparr>"

definition example_scenario :: "string \<Rightarrow> Appliance list \<Rightarrow> Scenario" where
  "example_scenario n as =
     \<lparr>Scenario.name = n,
      household = \<lparr>region = ASIA,
                   timeWindow = \<lparr>tw_start = Date 1704067200000, tw_end = Date 1704067200000\<rparr>,
                   appliances = as\<rparr>\<rparr>"

definition example_app :: App where
  "example_app =
     \<lparr>possibleAppliances = [fridge, kettle], scenarios = [example_scenario ''scenario-1'' []]\<rparr>"

definition edit_answers :: "string option list" where
  "edit_answers =
     [Some ''scenario-1'', Some ''home'', Some ''2024-01-01'', Some ''00:00'',
      Some ''2024-01-01'', Some ''23:59'', Some ''2'']"

section \<open>Properties of the Result wrapper\<close>

text \<open>
  C7. For every wrapped operation that settles, \<open>tryCatch\<close> fulfils with an object that
  has exactly one of the two properties: \<open>data\<close>, carrying the value, when the operation
  succeeds, and \<open>error\<close>, carrying the raised value, when it fails. It never has both and
  never neither, and \<open>tryCatch\<close> itself never rejects, whatever the operation does.
\<close>

theorem tryCatch_exactly_one:
  "(\<forall>d. p = Fulfilled d \<longrightarrow> tryCatch p = Fulfilled \<lparr>data = Some d, error = None\<rparr>) \<and>
   (\<forall>e. p = Rejected e \<longrightarrow> tryCatch p = Fulfilled \<lparr>data = None, error = Some e\<rparr>) \<and>
   (\<forall>r. tryCatch p = Fulfilled r \<longrightarrow> (data r = None) \<noteq> (error r = None)) \<and>
   (\<forall>x. tryCatch p \<noteq> Rejected x) \<and>
   (p \<noteq> Pending \<longrightarrow> (\<exists>r. tryCatch p = Fulfilled r))"
  by (cases p) (auto simp: tryCatch_def)

theorem tryCatch_exactly_one_witness:
  "tryCatch (Fulfilled (7::nat) :: (nat, js_error) promise)
     = Fulfilled \<lparr>data = Some 7, error = None\<rparr> \<and>
   tryCatch (Rejected (JsError ''ENOENT'' None) :: (nat, js_error) promise)
     = Fulfilled \<lparr>data = None, error = Some (JsError ''ENOENT'' None)\<rparr>"
  using tryCatch_exactly_one [of "Fulfilled (7::nat) :: (nat, js_error) promise"]
    tryCatch_exactly_one [of "Rejected (JsError ''ENOENT'' None) :: (nat, js_error) promise"]
  by simp

section \<open>Properties of the appliance loader\<close>

lemma fold_set_members:
  "fold (\<lambda>(k, v) m. m(k \<mapsto> v)) members m0 = m0 ++ map_of (rev members)"
proof (induction members arbitrary: m0)
  case Nil
  then show ?case by simp
next
  case (Cons kv members)
  obtain k v where kv: "kv = (k, v)" by (cases kv)
  have "fold (\<lambda>(k, v) m. m(k \<mapsto> v)) (kv # members) m0
          = fold (\<lambda>(k, v) m. m(k \<mapsto> v)) members (m0(k \<mapsto> v))"
    using kv by simp
  also have "\<dots> = m0(k \<mapsto> v) ++ map_of (rev members)"
    by (rule Cons.IH)
  also have "\<dots> = m0 ++ map_of (rev (kv # members))"
    using kv by (auto simp: fun_eq_iff map_add_def split: option.splits)
  finally show ?case .
qed

lemma toAppliance_parameters:
  "parameters (toAppliance (ApplianceData n pc ee um (Some members))) = obj_get members"
  by (simp add: fold_set_members obj_get_def fun_eq_iff)

lemma ApplianceSchema_parse_valid:
  assumes "valid_record e"
  shows "\<exists>d. ApplianceSchema_parse p e = Inr d \<and> carries e (toAppliance d)"
proof -
  from assms obtain members where e: "e = JObject members"
    by (cases e) (auto simp: valid_record_def)
  from assms e obtain s where s: "obj_get members ''name'' = Some (JString s)" "trim s \<noteq> []"
    by (auto simp: valid_record_def split: option.splits json.splits)
  from assms e obtain pc where pc: "obj_get members ''powerConsumption'' = Some (JNumber pc)" "0 \<le> pc"
    by (auto simp: valid_record_def split: option.splits json.splits)
  from assms e obtain ee where ee: "obj_get members ''embodiedEmissions'' = Some (JNumber ee)" "0 \<le> ee"
    by (auto simp: valid_record_def split: option.splits json.splits)
  from assms e obtain um where um: "obj_get members ''usageMode'' = Some (JString (UsageMode_value um))"
    "parse_usageMode (p @ [Key ''usageMode'']) (obj_get members ''usageMode'') = Inr um"
  proof -
    from assms e obtain m where m: "obj_get members ''usageMode'' = Some (JString m)"
      "m = ''ALWAYS_ON'' \<or> m = ''ON_DEMAND''"
      by (auto simp: valid_record_def split: option.splits json.splits)
    show ?thesis
    proof (cases "m = ''ALWAYS_ON''")
      case True
      with m that [of ALWAYS_ON] show ?thesis by (simp add: parse_usageMode_def)
    next
      case False
      with m that [of ON_DEMAND] show ?thesis by (simp add: parse_usageMode_def)
    qed
  qed
  from assms e have ps: "obj_get members ''parameters'' = None \<or>
      (\<exists>ps. obj_get members ''parameters'' = Some (JObject ps))"
    by (auto simp: valid_record_def split: option.splits json.splits)
  have n': "parse_name (p @ [Key ''name'']) (obj_get members ''name'') = Inr (trim s)"
    using s by (cases "trim s") (simp_all add: parse_name_def)
  have pc': "parse_number_min0 (p @ [Key ''powerConsumption'']) (obj_get members ''powerConsumption'') = Inr pc"
    using pc by (simp add: parse_number_min0_def)
  have ee': "parse_number_min0 (p @ [Key ''embodiedEmissions'']) (obj_get members ''embodiedEmissions'') = Inr ee"
    using ee by (simp add: parse_number_min0_def)
  from ps show ?thesis
  proof
    assume none: "obj_get members ''parameters'' = None"
    then have "ApplianceSchema_parse p e = Inr (ApplianceData (trim s) pc ee um None)"
      using e n' pc' ee' um(2) by (simp add: ApplianceSchema_parse_def parse_parameters_def)
    moreover have "carries e (toAppliance (ApplianceData (trim s) pc ee um None))"
      using e s pc ee um(1) none by (simp add: carries_def)
    ultimately show ?thesis by blast
  next
    assume "\<exists>ps. obj_get members ''parameters'' = Some (JObject ps)"
    then obtain ms where some: "obj_get members ''parameters'' = Some (JObject ms)" by blast
    then have "ApplianceSchema_parse p e
        = Inr (ApplianceData (trim s) pc ee um (Some (mergeObjectSync ms)))"
      using e n' pc' ee' um(2) by (simp add: ApplianceSchema_parse_def parse_parameters_def)
    moreover have "carries e (toAppliance (ApplianceData (trim s) pc ee um (Some (mergeObjectSync ms))))"
      using e s pc ee um(1) some toAppliance_parameters [of "trim s" pc ee um "mergeObjectSync ms"]
      by (simp add: carries_def mergeObjectSync_def)
    ultimately show ?thesis by blast
  qed
qed

lemma parse_elements_valid:
  "list_all valid_record es \<Longrightarrow>
   \<exists>ds. parse_elements i es = Inr ds \<and> list_all2 carries es (map toAppliance ds)"
proof (induction es arbitrary: i)
  case Nil
  then show ?case by simp
next
  case (Cons e es)
  from Cons.prems obtain d where d: "ApplianceSchema_parse [Index i] e = Inr d" "carries e (toAppliance d)"
    using ApplianceSchema_parse_valid [of e "[Index i]"] by auto
  from Cons.prems Cons.IH [of "Suc i"] obtain ds where
    ds: "parse_elements (Suc i) es = Inr ds" "list_all2 carries es (map toAppliance ds)"
    by auto
  from d ds show ?case by simp
qed

lemma parse_name_issues: "parse_name p v = Inl iss \<Longrightarrow> iss \<noteq> []"
  by (auto simp: parse_name_def Let_def split: option.splits json.splits if_splits)

lemma parse_number_min0_issues: "parse_number_min0 p v = Inl iss \<Longrightarrow> iss \<noteq> []"
  by (auto simp: parse_number_min0_def split: option.splits json.splits if_splits)

lemma parse_usageMode_issues: "parse_usageMode p v = Inl iss \<Longrightarrow> iss \<noteq> []"
  by (auto simp: parse_usageMode_def split: option.splits json.splits if_splits)

lemma parse_parameters_issues: "parse_parameters p v = Inl iss \<Longrightarrow> iss \<noteq> []"
  by (auto simp: parse_parameters_def split: option.splits json.splits)

lemma ApplianceSchema_parse_issues:
  assumes "ApplianceSchema_parse p e = Inl iss"
  shows "iss \<noteq> []"
proof (cases e)
  case (JObject members)
  with assms show ?thesis
    by (auto simp: ApplianceSchema_parse_def Let_def issues_of_def split: sum.splits
          dest: parse_name_issues parse_number_min0_issues parse_usageMode_issues
            parse_parameters_issues)
qed (use assms in \<open>auto simp: ApplianceSchema_parse_def\<close>)

lemma ApplianceSchema_parse_violates:
  assumes "violates e"
  shows "\<exists>iss. ApplianceSchema_parse p e = Inl iss"
proof -
  from assms obtain members where e: "e = JObject members"
    by (cases e) (auto simp: violates_def)
  from assms e have
    "(\<exists>iss. parse_number_min0 (p @ [Key ''powerConsumption'']) (obj_get members ''powerConsumption'') = Inl iss) \<or>
     (\<exists>iss. parse_number_min0 (p @ [Key ''embodiedEmissions'']) (obj_get members ''embodiedEmissions'') = Inl iss) \<or>
     (\<exists>iss. parse_usageMode (p @ [Key ''usageMode'']) (obj_get members ''usageMode'') = Inl iss)"
    by (auto simp: violates_def parse_number_min0_def parse_usageMode_def
          split: option.splits json.splits)
  then show ?thesis
    using e by (auto simp: ApplianceSchema_parse_def Let_def split: sum.splits)
qed

lemma parse_elements_issues:
  "parse_elements i es = Inl iss \<Longrightarrow> iss \<noteq> []"
proof (induction es arbitrary: i iss)
  case Nil
  then show ?case by simp
next
  case (Cons e es)
  show ?case
  proof (cases "ApplianceSchema_parse [Index i] e")
    case (Inl is1)
    then have "is1 \<noteq> []" by (rule ApplianceSchema_parse_issues)
    with Inl Cons.prems show ?thesis
      by (auto simp: issues_of_def split: sum.splits)
  next
    case (Inr d)
    show ?thesis
    proof (cases "parse_elements (Suc i) es")
      case (Inl is2)
      then have "is2 \<noteq> []" by (rule Cons.IH)
      with Inl Inr Cons.prems show ?thesis by (auto simp: issues_of_def)
    next
      case Inr2: (Inr ds)
      with Inr Cons.prems show ?thesis by simp
    qed
  qed
qed

lemma parse_elements_violates:
  "e \<in> set es \<Longrightarrow> violates e \<Longrightarrow> \<exists>iss. parse_elements i es = Inl iss"
proof (induction es arbitrary: i)
  case Nil
  then show ?case by simp
next
  case (Cons x es)
  show ?case
  proof (cases "x = e")
    case True
    with Cons.prems obtain is1 where "ApplianceSchema_parse [Index i] x = Inl is1"
      using ApplianceSchema_parse_violates [of e "[Index i]"] by auto
    then show ?thesis by simp
  next
    case False
    with Cons.prems have "e \<in> set es" by simp
    with Cons obtain is2 where "parse_elements (Suc i) es = Inl is2" by blast
    then show ?thesis by (auto split: sum.splits)
  qed
qed

text \<open>
  C2, with the fields as the schema transforms them. When the catalog file reads as a JSON
  array of valid records, the loader fulfils with one appliance per entry, in the same
  order, each carrying its record: the power consumption, embodied emissions and usage mode
  equal the record's, the name is the record's name trimmed (equal to the record's name
  when that has no white space at its ends), and the parameters are the empty mapping when
  the record has none and otherwise map the keys of the record's parameters, other than
  \<open>__proto__\<close>, to their values.
\<close>

theorem loadAppliancesFromFile_valid_catalog:
  assumes "Bun_file_text h filePath = Fulfilled text"
    and "JSON_parse h text = Inr (JArray es)"
    and "list_all valid_record es"
  shows "\<exists>as. loadAppliancesFromFile h filePath = Fulfilled as \<and> list_all2 carries es as"
proof -
  from assms(3) obtain ds where
    ds: "parse_elements 0 es = Inr ds" "list_all2 carries es (map toAppliance ds)"
    using parse_elements_valid [of es 0] by blast
  have "loadAppliancesFromFile h filePath = Fulfilled (map toAppliance ds)"
    using assms(1,2) ds(1)
    by (simp add: loadAppliancesFromFile_def tryCatch_def AppliancesSchema_safeParse_def)
  with ds(2) show ?thesis by blast
qed

theorem loadAppliancesFromFile_valid_catalog_witness:
  "Bun_file_text (catalog_host (JArray [fridge_record ''Fridge'' 150 ''ALWAYS_ON'']))
       ''./appliances.json'' = Fulfilled ''catalog text'' \<and>
   JSON_parse (catalog_host (JArray [fridge_record ''Fridge'' 150 ''ALWAYS_ON''])) ''catalog text''
     = Inr (JArray [fridge_record ''Fridge'' 150 ''ALWAYS_ON'']) \<and>
   list_all valid_record [fridge_record ''Fridge'' 150 ''ALWAYS_ON''] \<and>
   (\<exists>as. loadAppliancesFromFile (catalog_host (JArray [fridge_record ''Fridge'' 150 ''ALWAYS_ON'']))
            ''./appliances.json'' = Fulfilled as \<and>
         list_all2 carries [fridge_record ''Fridge'' 150 ''ALWAYS_ON''] as)"
proof -
  let ?es = "[fridge_record ''Fridge'' 150 ''ALWAYS_ON'']"
  let ?h = "catalog_host (JArray ?es)"
  have a: "Bun_file_text ?h ''./appliances.json'' = Fulfilled ''catalog text''"
    by (simp add: catalog_host_def example_host_def)
  have b: "JSON_parse ?h ''catalog text'' = Inr (JArray ?es)"
    by (simp add: catalog_host_def example_host_def)
  have c: "list_all valid_record ?es"
    by (simp add: valid_record_def fridge_record_def obj_get_def trim_def isWhiteSpace_def)
  from loadAppliancesFromFile_valid_catalog [OF a b c] a b c show ?thesis by blast
qed

text \<open>
  C2 with the fields taken verbatim does not hold: the record with the name
  \<open>" Fridge"\<close> and the parameters \<open>__proto__\<close> and \<open>colour\<close> is valid, and the
  appliance loaded from it is named \<open>"Fridge"\<close> and has the parameter \<open>colour\<close>
  only. Neither the name nor the parameters are the record's.
\<close>

theorem loadAppliancesFromFile_fields_transformed:
  "valid_record untrimmed_record \<and>
   loadAppliancesFromFile (catalog_host (JArray [untrimmed_record])) ''./appliances.json''
     = Fulfilled [\<lparr>Appliance.name = ''Fridge'', powerConsumption = 150, embodiedEmissions = 50,
                   usageMode = ALWAYS_ON,
                   parameters = [''colour'' \<mapsto> JString ''white'']\<rparr>] \<and>
   ''Fridge'' \<noteq> '' Fridge'' \<and>
   [''colour'' \<mapsto> JString ''white''] ''__proto__''
     \<noteq> obj_get [(''__proto__'', JNumber 1), (''colour'', JString ''white'')] ''__proto__''"
proof -
  have v: "valid_record untrimmed_record"
    by (simp add: valid_record_def untrimmed_record_def obj_get_def trim_def isWhiteSpace_def)
  have p: "parse_elements 0 [untrimmed_record]
      = Inr [ApplianceData ''Fridge'' 150 50 ALWAYS_ON (Some [(''colour'', JString ''white'')])]"
    by (simp add: untrimmed_record_def obj_get_def trim_def isWhiteSpace_def
          ApplianceSchema_parse_def parse_name_def parse_number_min0_def parse_usageMode_def
          parse_parameters_def mergeObjectSync_def)
  have l: "loadAppliancesFromFile (catalog_host (JArray [untrimmed_record])) ''./appliances.json''
     = Fulfilled [\<lparr>Appliance.name = ''Fridge'', powerConsumption = 150, embodiedEmissions = 50,
                   usageMode = ALWAYS_ON,
                   parameters = [''colour'' \<mapsto> JString ''white'']\<rparr>]"
    using p
    by (simp add: loadAppliancesFromFile_def tryCatch_def catalog_host_def example_host_def
          AppliancesSchema_safeParse_def)
  have d: "[''colour'' \<mapsto> JString ''white''] ''__proto__''
     \<noteq> obj_get [(''__proto__'', JNumber 1), (''colour'', JString ''white'')] ''__proto__''"
    by (simp add: obj_get_def)
  from v l d show ?thesis by simp
qed

text \<open>
  C3. When the catalog file reads as a JSON array with at least one entry that has a
  negative power consumption, negative embodied emissions or a usage mode outside the
  enum, the loader rejects with an error whose message starts with
  \<open>Zod validation error:\<close> and reports at least one issue; no appliance list is
  returned.
\<close>

theorem loadAppliancesFromFile_schema_violation:
  assumes "Bun_file_text h filePath = Fulfilled text"
    and "JSON_parse h text = Inr (JArray es)"
    and "e \<in> set es"
    and "violates e"
  shows "\<exists>issues. issues \<noteq> [] \<and>
           loadAppliancesFromFile h filePath
             = Rejected (JsError (''Zod validation error:'' @ ZodError_message h issues) None)"
proof -
  from assms(3,4) obtain issues where iss: "parse_elements 0 es = Inl issues"
    using parse_elements_violates [of e es 0] by blast
  then have "issues \<noteq> []" by (rule parse_elements_issues)
  moreover have "loadAppliancesFromFile h filePath
      = Rejected (JsError (''Zod validation error:'' @ ZodError_message h issues) None)"
    using assms(1,2) iss
    by (simp add: loadAppliancesFromFile_def tryCatch_def AppliancesSchema_safeParse_def
          new_Error_def)
  ultimately show ?thesis by blast
qed

theorem loadAppliancesFromFile_schema_violation_witness:
  "Bun_file_text (catalog_host (JArray [fridge_record ''Fridge'' (- 1) ''ALWAYS_ON'']))
       ''./appliances.json'' = Fulfilled ''catalog text'' \<and>
   JSON_parse (catalog_host (JArray [fridge_record ''Fridge'' (- 1) ''ALWAYS_ON''])) ''catalog text''
     = Inr (JArray [fridge_record ''Fridge'' (- 1) ''ALWAYS_ON'']) \<and>
   fridge_record ''Fridge'' (- 1) ''ALWAYS_ON'' \<in> set [fridge_record ''Fridge'' (- 1) ''ALWAYS_ON''] \<and>
   violates (fridge_record ''Fridge'' (- 1) ''ALWAYS_ON'') \<and>
   (\<exists>issues. issues \<noteq> [] \<and>
      loadAppliancesFromFile (catalog_host (JArray [fridge_record ''Fridge'' (- 1) ''ALWAYS_ON'']))
          ''./appliances.json''
        = Rejected (JsError (''Zod validation error:'' @
            ZodError_message (catalog_host (JArray [fridge_record ''Fridge'' (- 1) ''ALWAYS_ON'']))
              issues) None))"
proof -
  let ?e = "fridge_record ''Fridge'' (- 1) ''ALWAYS_ON''"
  let ?h = "catalog_host (JArray [?e])"
  have a: "Bun_file_text ?h ''./appliances.json'' = Fulfilled ''catalog text''"
    by (simp add: catalog_host_def example_host_def)
  have b: "JSON_parse ?h ''catalog text'' = Inr (JArray [?e])"
    by (simp add: catalog_host_def example_host_def)
  have c: "?e \<in> set [?e]" by simp
  have d: "violates ?e"
    by (simp add: violates_def fridge_record_def obj_get_def)
  from loadAppliancesFromFile_schema_violation [OF a b c d] a b c d show ?thesis by blast
qed

text \<open>
  C8 at a catalog file that cannot be read: the loader rejects with the file-read error,
  and that error has no cause, so the read error is not attached to it.
\<close>

theorem loadAppliancesFromFile_read_failure_drops_cause:
  "Bun_file_text missing_file_host ''./appliances.json''
     = Rejected (JsError ''ENOENT: no such file or directory'' None) \<and>
   loadAppliancesFromFile missing_file_host ''./appliances.json''
     = Rejected (JsError ''Error reading file ./appliances.json:'' None) \<and>
   (case loadAppliancesFromFile missing_file_host ''./appliances.json'' of
      Rejected thrown \<Rightarrow> cause thrown
    | _ \<Rightarrow> None) \<noteq> Some (JsError ''ENOENT: no such file or directory'' None)"
  by (simp add: missing_file_host_def example_host_def loadAppliancesFromFile_def tryCatch_def
        new_Error_def)

section \<open>Properties of createScenario\<close>

lemma createScenario_step:
  "createScenario (app, w) =
     (app\<lparr>scenarios := scenarios app @
        [\<lparr>Scenario.name = ''scenario-'' @ nat_toString (length (scenarios app) + 1),
          household =
            \<lparr>region = ASIA,
             timeWindow = \<lparr>tw_start = Date (clock w (clock_reads w)),
                           tw_end = Date (clock w (Suc (clock_reads w)))\<rparr>,
             appliances = []\<rparr>\<rparr>]\<rparr>,
      console_log ''Scenario created.'' (w\<lparr>clock_reads := Suc (Suc (clock_reads w))\<rparr>))"
  by (simp add: createScenario_def new_Date_def Let_def)

lemma placeholder_new:
  "placeholder \<lparr>Scenario.name = n,
      household = \<lparr>region = ASIA, timeWindow = tw, appliances = []\<rparr>\<rparr>"
  by (simp add: placeholder_def)

lemma createScenario_funpow:
  "\<exists>app' w'. (createScenario ^^ N) (app, w) = (app', w') \<and>
     possibleAppliances app' = possibleAppliances app \<and>
     map Scenario.name (scenarios app') =
       map Scenario.name (scenarios app) @
       map (\<lambda>i. ''scenario-'' @ nat_toString (length (scenarios app) + Suc i)) [0..<N] \<and>
     (list_all placeholder (scenarios app) \<longrightarrow> list_all placeholder (scenarios app'))"
proof (induction N)
  case 0
  then show ?case by simp
next
  case (Suc N)
  then obtain app' w' where IH: "(createScenario ^^ N) (app, w) = (app', w')"
    "possibleAppliances app' = possibleAppliances app"
    "map Scenario.name (scenarios app') =
       map Scenario.name (scenarios app) @
       map (\<lambda>i. ''scenario-'' @ nat_toString (length (scenarios app) + Suc i)) [0..<N]"
    "list_all placeholder (scenarios app) \<longrightarrow> list_all placeholder (scenarios app')"
    by blast
  have len: "length (scenarios app') = length (scenarios app) + N"
    using arg_cong [OF IH(3), of length] by simp
  have "(createScenario ^^ Suc N) (app, w) = createScenario (app', w')"
    using IH(1) by simp
  then show ?case
    using IH(2,3,4) len by (simp add: createScenario_step placeholder_new)
qed

text \<open>
  C4. Running \<open>createScenario\<close> N times on a controller with no scenarios gives
  exactly N scenarios, the i-th (from 1) named \<open>scenario-i\<close>, each with a household
  that has no appliances and region ASIA.
\<close>

theorem createScenario_N_times:
  assumes "scenarios app = []"
  shows "length (scenarios (fst ((createScenario ^^ N) (app, w)))) = N \<and>
         map Scenario.name (scenarios (fst ((createScenario ^^ N) (app, w))))
           = map (\<lambda>i. ''scenario-'' @ nat_toString (Suc i)) [0..<N] \<and>
         (\<forall>s \<in> set (scenarios (fst ((createScenario ^^ N) (app, w)))).
            appliances (household s) = [] \<and> region (household s) = ASIA)"
proof -
  obtain app' w' where r: "(createScenario ^^ N) (app, w) = (app', w')"
     "map Scenario.name (scenarios app') =
       map Scenario.name (scenarios app) @
       map (\<lambda>i. ''scenario-'' @ nat_toString (length (scenarios app) + Suc i)) [0..<N]"
     "list_all placeholder (scenarios app) \<longrightarrow> list_all placeholder (scenarios app')"
    using createScenario_funpow [of N app w] by blast
  have names: "map Scenario.name (scenarios app')
      = map (\<lambda>i. ''scenario-'' @ nat_toString (Suc i)) [0..<N]"
    using r(2) assms by simp
  have "length (scenarios app') = N"
    using arg_cong [OF names, of length] by simp
  moreover have "list_all placeholder (scenarios app')"
    using r(3) assms by simp
  ultimately show ?thesis
    using r(1) names by (simp add: list_all_iff placeholder_def)
qed

theorem createScenario_N_times_witness:
  "scenarios (new_App []) = [] \<and>
   length (scenarios (fst ((createScenario ^^ 2) (new_App [], example_world [])))) = 2 \<and>
   map Scenario.name (scenarios (fst ((createScenario ^^ 2) (new_App [], example_world []))))
     = [''scenario-1'', ''scenario-2''] \<and>
   list_all placeholder (scenarios (fst ((createScenario ^^ 2) (new_App [], example_world []))))"
proof -
  have a: "scenarios (new_App []) = []" by (simp add: new_App_def)
  have b: "map (\<lambda>i. ''scenario-'' @ nat_toString (Suc i)) [0..<2] = [''scenario-1'', ''scenario-2'']"
    by (simp add: upt_rec nat_toString.simps)
  from createScenario_N_times [OF a, of 2 "example_world []"] a b show ?thesis
    by (simp add: list_all_iff placeholder_def)
qed

section \<open>Properties of Scenario.evaluate\<close>

lemma Math_round_unit:
  assumes "0 \<le> r" "r < 1"
  shows "Math_round r * 100 = 0 \<or> Math_round r * 100 = 100"
proof (cases "r < 1 / 2")
  case True
  with assms have "\<lfloor>r + 1 / 2\<rfloor> = 0" by (simp add: floor_eq_iff)
  then show ?thesis by (simp add: Math_round_def)
next
  case False
  with assms have "\<lfloor>r + 1 / 2\<rfloor> = 1" by (simp add: floor_eq_iff)
  then show ?thesis by (simp add: Math_round_def)
qed

lemma evaluate_map_appliances:
  "map appliance (fst (evaluate_map as w)) = as"
  by (induction as arbitrary: w) (simp_all add: split_def Let_def)

lemma evaluate_map_values:
  assumes "\<forall>n. 0 \<le> random w n \<and> random w n < 1"
  shows "\<forall>c \<in> set (fst (evaluate_map as w)).
           contribution_value c = 0 \<or> contribution_value c = 100"
  using assms
proof (induction as arbitrary: w)
  case Nil
  then show ?case by simp
next
  case (Cons a as)
  have same: "random (snd (Math_random w)) = random w"
    by (simp add: Math_random_def)
  have "0 \<le> fst (Math_random w) \<and> fst (Math_random w) < 1"
    using Cons.prems by (simp add: Math_random_def)
  then have head: "Math_round (fst (Math_random w)) * 100 = 0 \<or>
      Math_round (fst (Math_random w)) * 100 = 100"
    using Math_round_unit by blast
  have tail: "\<forall>c \<in> set (fst (evaluate_map as (snd (Math_random w)))).
           contribution_value c = 0 \<or> contribution_value c = 100"
    using Cons.IH [of "snd (Math_random w)"] Cons.prems same by simp
  from head tail show ?case by (simp add: split_def Let_def)
qed

text \<open>
  C5. For a scenario whose household holds k appliances, and any outcome of the random
  source (each draw in the range of \<open>Math.random\<close>, from 0 up to but not including
  1), \<open>Scenario.evaluate\<close> returns exactly k contributions, the i-th for the
  household's i-th appliance, and the value of each is exactly 0 or exactly 100.
\<close>

theorem Scenario_evaluate_contributions:
  assumes "\<forall>n. 0 \<le> random w n \<and> random w n < 1"
  shows "length (fst (Scenario_evaluate s w)) = length (appliances (household s)) \<and>
         map appliance (fst (Scenario_evaluate s w)) = appliances (household s) \<and>
         (\<forall>c \<in> set (fst (Scenario_evaluate s w)).
            contribution_value c = 0 \<or> contribution_value c = 100)"
proof -
  have m: "map appliance (fst (Scenario_evaluate s w)) = appliances (household s)"
    by (simp add: Scenario_evaluate_def evaluate_map_appliances)
  have "length (fst (Scenario_evaluate s w)) = length (appliances (household s))"
    using arg_cong [OF m, of length] by simp
  with m evaluate_map_values [OF assms] show ?thesis
    by (simp add: Scenario_evaluate_def)
qed

theorem Scenario_evaluate_contributions_witness:
  "(\<forall>n. 0 \<le> random (example_world []) n \<and> random (example_world []) n < 1) \<and>
   length (fst (Scenario_evaluate (example_scenario ''home'' [fridge, kettle]) (example_world []))) = 2 \<and>
   map appliance (fst (Scenario_evaluate (example_scenario ''home'' [fridge, kettle]) (example_world [])))
     = [fridge, kettle] \<and>
   list_all (\<lambda>c. contribution_value c = 0 \<or> contribution_value c = 100)
     (fst (Scenario_evaluate (example_scenario ''home'' [fridge, kettle]) (example_world [])))"
proof -
  have a: "\<forall>n. 0 \<le> random (example_world []) n \<and> random (example_world []) n < 1"
    by (simp add: example_world_def)
  have b: "appliances (household (example_scenario ''home'' [fridge, kettle])) = [fridge, kettle]"
    by (simp add: example_scenario_def)
  from Scenario_evaluate_contributions [OF a, of "example_scenario ''home'' [fridge, kettle]"] a b
  show ?thesis by (simp add: list_all_iff)
qed

section \<open>Properties of the commands\<close>

lemma stdin_console_log: "stdin (console_log m w) = stdin w"
  by (simp add: console_log_def)

lemma stdin_fold_console_log:
  "stdin (fold (\<lambda>(index, x). console_log (f index x)) xs w) = stdin w"
  by (induction xs arbitrary: w) (simp_all add: split_def stdin_console_log)

lemma stdin_listScenarios: "stdin (listScenarios h app w) = stdin w"
  by (simp add: listScenarios_def stdin_fold_console_log stdin_console_log)

lemma stdin_listAppliances: "stdin (listAppliances h app w) = stdin w"
  by (simp add: listAppliances_def stdin_fold_console_log stdin_console_log)

lemma prompt_answer:
  "stdin w = answer # rest \<Longrightarrow>
   fst (prompt msg w) = answer \<and> stdin (snd (prompt msg w)) = rest"
  by (simp add: prompt_def)

lemma findIndex_found:
  "\<exists>x \<in> set xs. P x \<Longrightarrow>
   0 \<le> findIndex P xs \<and> nat (findIndex P xs) < length xs \<and> P (xs ! nat (findIndex P xs))"
proof (induction xs)
  case Nil
  then show ?case by simp
next
  case (Cons x xs)
  show ?case
  proof (cases "P x")
    case True
    then show ?thesis by simp
  next
    case False
    with Cons.prems have "\<exists>x \<in> set xs. P x" by simp
    then have IH: "0 \<le> findIndex P xs" "nat (findIndex P xs) < length xs"
      "P (xs ! nat (findIndex P xs))"
      using Cons.IH by simp_all
    from IH(1) have "nat (findIndex P xs + 1) = Suc (nat (findIndex P xs))" by simp
    with False IH show ?thesis by (simp add: Let_def)
  qed
qed

lemma getScenarioName_answer:
  assumes "stdin w = answer # rest"
  shows "fst (getScenarioName s w) = (if falsy answer then Scenario.name s else text_of answer) \<and>
         stdin (snd (getScenarioName s w)) = rest"
  using prompt_answer [OF assms, of "''Enter a new name for the scenario:''"]
  by (simp add: getScenarioName_def split_def Let_def)

lemma getRegion_answer:
  assumes "stdin w = answer # rest"
  shows "fst (getRegion w) = selected_region answer \<and> stdin (snd (getRegion w)) = rest"
proof -
  let ?w1 = "console_log
                 (nl @ ''Select a region:'' @ nl @ ''1. US'' @ nl @ ''2. EU'' @ nl @ ''3. ASIA'' @ nl
                    @ ''4. Not Specified'') w"
  have "stdin ?w1 = answer # rest" using assms by (simp add: stdin_console_log)
  from prompt_answer [OF this, of "''Enter region number (1-4):''"] show ?thesis
    by (cases answer)
       (auto simp: getRegion_def split_def Let_def selected_region_def falsy_def text_of_def)
qed

lemma stdin_new_Date: "stdin (snd (new_Date w)) = stdin w"
  by (simp add: new_Date_def)

lemma getTimeWindow_ok:
  assumes "stdin w = Some sd # Some st # Some ed # Some et # rest"
    and "sd \<noteq> []" "st \<noteq> []" "ed \<noteq> []" "et \<noteq> []"
    and "Date_parse h (sd @ ''T'' @ st) = Date a"
    and "Date_parse h (ed @ ''T'' @ et) = Date b"
  shows "fst (getTimeWindow h w) = Some \<lparr>tw_start = Date a, tw_end = Date b\<rparr> \<and>
         stdin (snd (getTimeWindow h w)) = rest"
proof -
  define w2 where "w2 = snd (new_Date (console_log ''Setting time window...'' w))"
  define w3 where "w3 = snd (prompt ''Enter start date (YYYY-MM-DD):'' w2)"
  define w4 where "w4 = snd (prompt ''Enter start time (HH:MM):'' w3)"
  define w5 where "w5 = snd (new_Date w4)"
  define w6 where "w6 = snd (prompt ''Enter end date (YYYY-MM-DD):'' w5)"
  define w7 where "w7 = snd (prompt ''Enter end time (HH:MM):'' w6)"
  have s2: "stdin w2 = Some sd # Some st # Some ed # Some et # rest"
    using assms(1) by (simp add: w2_def stdin_new_Date stdin_console_log)
  have p3: "fst (prompt ''Enter start date (YYYY-MM-DD):'' w2) = Some sd"
    and s3: "stdin w3 = Some st # Some ed # Some et # rest"
    using prompt_answer [OF s2] by (simp_all add: w3_def)
  have p4: "fst (prompt ''Enter start time (HH:MM):'' w3) = Some st"
    and s4: "stdin w4 = Some ed # Some et # rest"
    using prompt_answer [OF s3] by (simp_all add: w4_def)
  have s5: "stdin w5 = Some ed # Some et # rest"
    using s4 by (simp add: w5_def stdin_new_Date)
  have p6: "fst (prompt ''Enter end date (YYYY-MM-DD):'' w5) = Some ed"
    and s6: "stdin w6 = Some et # rest"
    using prompt_answer [OF s5] by (simp_all add: w6_def)
  have p7: "fst (prompt ''Enter end time (HH:MM):'' w6) = Some et"
    and s7: "stdin w7 = rest"
    using prompt_answer [OF s6] by (simp_all add: w7_def)
  have "getTimeWindow h w = (Some \<lparr>tw_start = Date a, tw_end = Date b\<rparr>, w7)"
    using p3 p4 p6 p7 assms(2-7)
    by (simp add: getTimeWindow_def split_def Let_def falsy_def text_of_def
          w2_def w3_def w4_def w5_def w6_def w7_def)
  with s7 show ?thesis by simp
qed

lemma getAppliances_loop_selection:
  "fst (getAppliances_loop h possible selected w)
     = selected @ selected_appliances h possible (stdin w)"
proof (induction h possible selected w rule: getAppliances_loop.induct)
  case (1 h possible selected w)
  let ?msg = "''Enter appliance number or '' @ [CHR 0x27] @ ''done:''"
  show ?case
  proof (cases "stdin w")
    case Nil
    then have "prompt ?msg w = (None, w\<lparr>stdout := stdout w @ [Prompted ?msg]\<rparr>)"
      by (simp add: prompt_def)
    then show ?thesis
      using Nil by (subst getAppliances_loop.simps) (simp add: falsy_def)
  next
    case (Cons answer rest)
    define w1 where "w1 = w\<lparr>stdin := rest, stdout := stdout w @ [Prompted ?msg]\<rparr>"
    have p: "prompt ?msg w = (answer, w1)"
      using Cons by (simp add: prompt_def w1_def)
    have s1: "stdin w1 = rest" by (simp add: w1_def)
    show ?thesis
    proof (cases "falsy answer \<or> toLowerCase (text_of answer) = ''done''")
      case True
      then show ?thesis
        using p Cons by (subst getAppliances_loop.simps) auto
    next
      case stop: False
      show ?thesis
      proof (cases "parseInt h (text_of answer)")
        case None
        have "fst (getAppliances_loop h possible selected w) =
            fst (getAppliances_loop h possible selected
                   (console_log ''Invalid appliance number. Please try again.'' w1))"
          using p stop None by (subst getAppliances_loop.simps) simp
        also have "\<dots> = selected @ selected_appliances h possible rest"
          using "1.IH"(1) [OF p [symmetric] _ None] stop s1 by (simp add: stdin_console_log)
        finally show ?thesis using Cons stop None by simp
      next
        case (Some n)
        show ?thesis
        proof (cases "n - 1 < 0 \<or> int (length possible) \<le> n - 1")
          case True
          have "fst (getAppliances_loop h possible selected w) =
              fst (getAppliances_loop h possible selected
                     (console_log ''Invalid appliance number. Please try again.'' w1))"
            using p stop Some True by (subst getAppliances_loop.simps) (simp add: Let_def)
          also have "\<dots> = selected @ selected_appliances h possible rest"
            using "1.IH"(2) [OF p [symmetric] _ Some refl True] stop s1
            by (simp add: stdin_console_log)
          finally show ?thesis using Cons stop Some True by auto
        next
          case False
          have "fst (getAppliances_loop h possible selected w) =
              fst (getAppliances_loop h possible (selected @ [possible ! nat (n - 1)])
                     (console_log (''Added '' @ Appliance_toString h (possible ! nat (n - 1))) w1))"
            using p stop Some False by (subst getAppliances_loop.simps) (simp add: Let_def)
          also have "\<dots> = (selected @ [possible ! nat (n - 1)]) @ selected_appliances h possible rest"
            using "1.IH"(3) [OF p [symmetric] _ Some refl False] stop s1
            by (simp add: stdin_console_log)
          finally show ?thesis using Cons stop Some False by auto
        qed
      qed
    qed
  qed
qed

text \<open>
  C9. When the controller has no scenarios, \<open>editScenario\<close>, \<open>deleteScenario\<close> and
  \<open>showScenarioReport\<close> each return right after logging the empty-list message: the
  world differs only by that line, so nothing was prompted and no answer was read, and the
  controller (catalog and scenario list) is unchanged.
\<close>

theorem commands_on_empty_list:
  assumes "scenarios app = []"
  shows "editScenario h (app, w)
           = (app, console_log ''No scenarios found or error reading file'' w) \<and>
         deleteScenario h (app, w)
           = (None, app, console_log ''No scenarios found or error reading file'' w) \<and>
         showScenarioReport h (app, w)
           = (app, console_log ''No scenarios found or error reading file'' w)"
  using assms
  by (simp add: editScenario_def deleteScenario_def showScenarioReport_def listScenarios_def)

theorem commands_on_empty_list_witness:
  "scenarios (new_App [fridge]) = [] \<and>
   editScenario (catalog_host (JArray [])) (new_App [fridge], example_world [Some ''scenario-1''])
     = (new_App [fridge],
        console_log ''No scenarios found or error reading file'' (example_world [Some ''scenario-1''])) \<and>
   deleteScenario (catalog_host (JArray [])) (new_App [fridge], example_world [Some ''scenario-1''])
     = (None, new_App [fridge],
        console_log ''No scenarios found or error reading file'' (example_world [Some ''scenario-1''])) \<and>
   showScenarioReport (catalog_host (JArray [])) (new_App [fridge], example_world [Some ''scenario-1''])
     = (new_App [fridge],
        console_log ''No scenarios found or error reading file'' (example_world [Some ''scenario-1''])) \<and>
   stdin (console_log ''No scenarios found or error reading file'' (example_world [Some ''scenario-1'']))
     = [Some ''scenario-1'']"
proof -
  have a: "scenarios (new_App [fridge]) = []" by (simp add: new_App_def)
  have b: "stdin (console_log ''No scenarios found or error reading file''
      (example_world [Some ''scenario-1''])) = [Some ''scenario-1'']"
    by (simp add: console_log_def example_world_def)
  from commands_on_empty_list [OF a, of "catalog_host (JArray [])"
      "example_world [Some ''scenario-1'']"] a b
  show ?thesis by blast
qed

lemma editScenario_reaches_appliances:
  assumes "stdin w = Some target # newName # Some sd # Some st # Some ed # Some et # regionInput # rest"
    and "target \<noteq> []" "sd \<noteq> []" "st \<noteq> []" "ed \<noteq> []" "et \<noteq> []"
    and "\<exists>s \<in> set (scenarios app). Scenario.name s = target"
    and "Date_parse h (sd @ ''T'' @ st) = Date a" "Date_parse h (ed @ ''T'' @ et) = Date b"
  shows "\<exists>w6. stdin w6 = rest \<and>
           editScenario h (app, w) =
             (if length (possibleAppliances app) = 0
              then (app, console_log ''No appliances available to add.'' w6)
              else
                (let w7 = console_log
                            (nl @ ''Add appliances to the scenario (enter ''
                               @ [CHR 0x27] @ ''done'' @ [CHR 0x27] @ '' when finished):'') w6;
                     (appliances, w8) = getAppliances h (possibleAppliances app) w7;
                     name = (if falsy newName then target else text_of newName);
                     editedScenario =
                       \<lparr>Scenario.name = name,
                        household =
                          \<lparr>region = selected_region regionInput,
                           timeWindow = \<lparr>tw_start = Date a, tw_end = Date b\<rparr>,
                           appliances = appliances\<rparr>\<rparr>
                 in (app\<lparr>scenarios := scenarios app @ [editedScenario]\<rparr>,
                     console_log
                       (''Scenario '' @ name @ '' created as a duplicate of '' @ target
                          @ '' with your changes.'') w8)))"
proof -
  define w1 where "w1 = listScenarios h app w"
  define w2 where "w2 = snd (prompt ''Enter the name of the scenario to edit:'' w1)"
  define idx where "idx = findIndex (\<lambda>s. Scenario.name s = target) (scenarios app)"
  define original where "original = scenarios app ! nat idx"
  define w3 where "w3 = snd (getScenarioName original w2)"
  define w4 where "w4 = snd (getTimeWindow h w3)"
  define w5 where "w5 = snd (getRegion w4)"
  define w6 where "w6 = listAppliances h app w5"
  have nonempty: "length (scenarios app) \<noteq> 0"
    using assms(7) by auto
  have s1: "stdin w1 = Some target # newName # Some sd # Some st # Some ed # Some et # regionInput # rest"
    using assms(1) by (simp add: w1_def stdin_listScenarios)
  have p2: "fst (prompt ''Enter the name of the scenario to edit:'' w1) = Some target"
    and s2: "stdin w2 = newName # Some sd # Some st # Some ed # Some et # regionInput # rest"
    using prompt_answer [OF s1] by (simp_all add: w2_def)
  have idx: "idx \<noteq> - 1" "Scenario.name original = target"
    using findIndex_found [OF assms(7)] by (simp_all add: idx_def original_def)
  have n3: "fst (getScenarioName original w2) = (if falsy newName then target else text_of newName)"
    and s3: "stdin w3 = Some sd # Some st # Some ed # Some et # regionInput # rest"
    using getScenarioName_answer [OF s2, of original] idx(2) by (simp_all add: w3_def)
  have t4: "fst (getTimeWindow h w3) = Some \<lparr>tw_start = Date a, tw_end = Date b\<rparr>"
    and s4: "stdin w4 = regionInput # rest"
    using getTimeWindow_ok [OF s3 assms(3-6) assms(8,9)] by (simp_all add: w4_def)
  have r5: "fst (getRegion w4) = selected_region regionInput"
    and s5: "stdin w5 = rest"
    using getRegion_answer [OF s4] by (simp_all add: w5_def)
  have s6: "stdin w6 = rest"
    using s5 by (simp add: w6_def stdin_listAppliances)
  have "editScenario h (app, w) =
      (if length (possibleAppliances app) = 0
       then (app, console_log ''No appliances available to add.'' w6)
       else
         (let w7 = console_log
                     (nl @ ''Add appliances to the scenario (enter ''
                        @ [CHR 0x27] @ ''done'' @ [CHR 0x27] @ '' when finished):'') w6;
              (appliances, w8) = getAppliances h (possibleAppliances app) w7;
              name = (if falsy newName then target else text_of newName);
              editedScenario =
                \<lparr>Scenario.name = name,
                 household =
                   \<lparr>region = selected_region regionInput,
                    timeWindow = \<lparr>tw_start = Date a, tw_end = Date b\<rparr>,
                    appliances = appliances\<rparr>\<rparr>
          in (app\<lparr>scenarios := scenarios app @ [editedScenario]\<rparr>,
              console_log
                (''Scenario '' @ name @ '' created as a duplicate of '' @ target
                   @ '' with your changes.'') w8)))"
    unfolding editScenario_def
    using nonempty p2 idx n3 t4 r5 assms(2)
    by (simp add: split_def Let_def falsy_def text_of_def
          w1_def [symmetric] w2_def [symmetric] idx_def [symmetric] original_def [symmetric]
          w3_def [symmetric] w4_def [symmetric] w5_def [symmetric] w6_def [symmetric])
  with s6 show ?thesis by blast
qed

text \<open>
  C6. When \<open>editScenario\<close> finds the named scenario and every prompt step succeeds
  (a name answer, four non-empty time-window answers that parse to valid dates, a region
  answer, and a catalog that is not empty so that the selection runs), the scenario list
  afterwards is the old list followed by exactly one new scenario, built from the
  collected name, time window, region and appliance selection. The old scenarios keep
  their places and values, the catalog is unchanged, and the list is one longer.
\<close>

theorem editScenario_appends_duplicate:
  assumes "stdin w = Some target # newName # Some sd # Some st # Some ed # Some et # regionInput # rest"
    and "target \<noteq> []" "sd \<noteq> []" "st \<noteq> []" "ed \<noteq> []" "et \<noteq> []"
    and "\<exists>s \<in> set (scenarios app). Scenario.name s = target"
    and "Date_parse h (sd @ ''T'' @ st) = Date a" "Date_parse h (ed @ ''T'' @ et) = Date b"
    and "possibleAppliances app \<noteq> []"
  shows "scenarios (fst (editScenario h (app, w))) =
           scenarios app @
           [\<lparr>Scenario.name = (if falsy newName then target else text_of newName),
             household =
               \<lparr>region = selected_region regionInput,
                timeWindow = \<lparr>tw_start = Date a, tw_end = Date b\<rparr>,
                appliances = selected_appliances h (possibleAppliances app) rest\<rparr>\<rparr>] \<and>
         possibleAppliances (fst (editScenario h (app, w))) = possibleAppliances app \<and>
         length (scenarios (fst (editScenario h (app, w)))) = length (scenarios app) + 1 \<and>
         take (length (scenarios app)) (scenarios (fst (editScenario h (app, w)))) = scenarios app"
proof -
  obtain w6 where w6: "stdin w6 = rest" and
    run: "editScenario h (app, w) =
             (if length (possibleAppliances app) = 0
              then (app, console_log ''No appliances available to add.'' w6)
              else
                (let w7 = console_log
                            (nl @ ''Add appliances to the scenario (enter ''
                               @ [CHR 0x27] @ ''done'' @ [CHR 0x27] @ '' when finished):'') w6;
                     (appliances, w8) = getAppliances h (possibleAppliances app) w7;
                     name = (if falsy newName then target else text_of newName);
                     editedScenario =
                       \<lparr>Scenario.name = name,
                        household =
                          \<lparr>region = selected_region regionInput,
                           timeWindow = \<lparr>tw_start = Date a, tw_end = Date b\<rparr>,
                           appliances = appliances\<rparr>\<rparr>
                 in (app\<lparr>scenarios := scenarios app @ [editedScenario]\<rparr>,
                     console_log
                       (''Scenario '' @ name @ '' created as a duplicate of '' @ target
                          @ '' with your changes.'') w8)))"
    using editScenario_reaches_appliances [OF assms(1-9)] by blast
  let ?w7 = "console_log
               (nl @ ''Add appliances to the scenario (enter ''
                  @ [CHR 0x27] @ ''done'' @ [CHR 0x27] @ '' when finished):'') w6"
  have sel: "fst (getAppliances h (possibleAppliances app) ?w7)
      = selected_appliances h (possibleAppliances app) rest"
    using getAppliances_loop_selection [of h "possibleAppliances app" "[]" ?w7] w6
    by (simp add: getAppliances_def stdin_console_log)
  have "scenarios (fst (editScenario h (app, w))) =
           scenarios app @
           [\<lparr>Scenario.name = (if falsy newName then target else text_of newName),
             household =
               \<lparr>region = selected_region regionInput,
                timeWindow = \<lparr>tw_start = Date a, tw_end = Date b\<rparr>,
                appliances = selected_appliances h (possibleAppliances app) rest\<rparr>\<rparr>]"
    and "possibleAppliances (fst (editScenario h (app, w))) = possibleAppliances app"
    using run assms(10) sel by (simp_all add: split_def Let_def)
  then show ?thesis by simp
qed

theorem editScenario_appends_duplicate_witness:
  "stdin (example_world (edit_answers @ [Some ''2'', Some ''7'', Some ''1'', Some ''done'']))
     = Some ''scenario-1'' # Some ''home'' # Some ''2024-01-01'' # Some ''00:00''
         # Some ''2024-01-01'' # Some ''23:59'' # Some ''2''
         # [Some ''2'', Some ''7'', Some ''1'', Some ''done''] \<and>
   (\<exists>s \<in> set (scenarios example_app). Scenario.name s = ''scenario-1'') \<and>
   Date_parse (catalog_host (JArray [])) (''2024-01-01'' @ ''T'' @ ''00:00'') = Date 1704067200000 \<and>
   Date_parse (catalog_host (JArray [])) (''2024-01-01'' @ ''T'' @ ''23:59'') = Date 1704153540000 \<and>
   possibleAppliances example_app \<noteq> [] \<and>
   scenarios (fst (editScenario (catalog_host (JArray []))
       (example_app,
        example_world (edit_answers @ [Some ''2'', Some ''7'', Some ''1'', Some ''done''])))) =
     [example_scenario ''scenario-1'' [],
      \<lparr>Scenario.name = ''home'',
       household =
         \<lparr>region = EU,
          timeWindow = \<lparr>tw_start = Date 1704067200000, tw_end = Date 1704153540000\<rparr>,
          appliances = [kettle, fridge]\<rparr>\<rparr>]"
proof -
  let ?h = "catalog_host (JArray [])"
  let ?rest = "[Some ''2'', Some ''7'', Some ''1'', Some ''done'']"
  let ?w = "example_world (edit_answers @ ?rest)"
  have a: "stdin ?w = Some ''scenario-1'' # Some ''home'' # Some ''2024-01-01'' # Some ''00:00''
         # Some ''2024-01-01'' # Some ''23:59'' # Some ''2'' # ?rest"
    by (simp add: example_world_def edit_answers_def)
  have b: "\<exists>s \<in> set (scenarios example_app). Scenario.name s = ''scenario-1''"
    by (simp add: example_app_def example_scenario_def)
  have c: "Date_parse ?h (''2024-01-01'' @ ''T'' @ ''00:00'') = Date 1704067200000"
    by (simp add: catalog_host_def example_host_def)
  have d: "Date_parse ?h (''2024-01-01'' @ ''T'' @ ''23:59'') = Date 1704153540000"
    by (simp add: catalog_host_def example_host_def)
  have e: "possibleAppliances example_app \<noteq> []"
    by (simp add: example_app_def)
  have f: "selected_appliances ?h (possibleAppliances example_app) ?rest = [kettle, fridge]"
    by (simp add: example_app_def catalog_host_def example_host_def falsy_def text_of_def
          toLowerCase_def lower_char_def)
  have g: "selected_region (Some ''2'') = EU" "falsy (Some ''home'') = False"
    "text_of (Some ''home'') = ''home''"
    by (simp_all add: selected_region_def falsy_def text_of_def)
  have n: "''scenario-1'' \<noteq> []" "''2024-01-01'' \<noteq> []" "''00:00'' \<noteq> []" "''23:59'' \<noteq> []"
    by simp_all
  from editScenario_appends_duplicate [OF a n(1) n(2) n(3) n(2) n(4) b c d e]
  have "scenarios (fst (editScenario ?h (example_app, ?w))) =
     [example_scenario ''scenario-1'' [],
      \<lparr>Scenario.name = ''home'',
       household =
         \<lparr>region = EU,
          timeWindow = \<lparr>tw_start = Date 1704067200000, tw_end = Date 1704153540000\<rparr>,
          appliances = [kettle, fridge]\<rparr>\<rparr>]"
    unfolding f g by (simp add: example_app_def)
  with a b c d e show ?thesis by blast
qed

text \<open>
  C10. With an empty catalog, \<open>editScenario\<close> given the exact name of an existing
  scenario and valid name, time-window and region answers stops after the region answer
  with the message that no appliances are available: the controller, and so the scenario
  list, is exactly as before, and the answers after the region are not read.
\<close>

theorem editScenario_empty_catalog:
  assumes "stdin w = Some target # newName # Some sd # Some st # Some ed # Some et # regionInput # rest"
    and "target \<noteq> []" "sd \<noteq> []" "st \<noteq> []" "ed \<noteq> []" "et \<noteq> []"
    and "\<exists>s \<in> set (scenarios app). Scenario.name s = target"
    and "Date_parse h (sd @ ''T'' @ st) = Date a" "Date_parse h (ed @ ''T'' @ et) = Date b"
    and "possibleAppliances app = []"
  shows "fst (editScenario h (app, w)) = app \<and>
         stdin (snd (editScenario h (app, w))) = rest \<and>
         last (stdout (snd (editScenario h (app, w)))) = Log ''No appliances available to add.''"
proof -
  obtain w6 where "stdin w6 = rest" and
    "editScenario h (app, w) = (app, console_log ''No appliances available to add.'' w6)"
    using editScenario_reaches_appliances [OF assms(1-9)] assms(10) by auto
  then show ?thesis by (simp add: console_log_def)
qed

theorem editScenario_empty_catalog_witness:
  "stdin (example_world (edit_answers @ [Some ''1'', Some ''done'']))
     = Some ''scenario-1'' # Some ''home'' # Some ''2024-01-01'' # Some ''00:00''
         # Some ''2024-01-01'' # Some ''23:59'' # Some ''2'' # [Some ''1'', Some ''done''] \<and>
   (\<exists>s \<in> set (scenarios (example_app\<lparr>possibleAppliances := []\<rparr>)). Scenario.name s = ''scenario-1'') \<and>
   Date_parse (catalog_host (JArray [])) (''2024-01-01'' @ ''T'' @ ''00:00'') = Date 1704067200000 \<and>
   Date_parse (catalog_host (JArray [])) (''2024-01-01'' @ ''T'' @ ''23:59'') = Date 1704153540000 \<and>
   possibleAppliances (example_app\<lparr>possibleAppliances := []\<rparr>) = [] \<and>
   fst (editScenario (catalog_host (JArray []))
         (example_app\<lparr>possibleAppliances := []\<rparr>,
          example_world (edit_answers @ [Some ''1'', Some ''done''])))
     = example_app\<lparr>possibleAppliances := []\<rparr> \<and>
   stdin (snd (editScenario (catalog_host (JArray []))
         (example_app\<lparr>possibleAppliances := []\<rparr>,
          example_world (edit_answers @ [Some ''1'', Some ''done'']))))
     = [Some ''1'', Some ''done'']"
proof -
  let ?h = "catalog_host (JArray [])"
  let ?rest = "[Some ''1'', Some ''done'']"
  let ?w = "example_world (edit_answers @ ?rest)"
  let ?app = "example_app\<lparr>possibleAppliances := []\<rparr>"
  have a: "stdin ?w = Some ''scenario-1'' # Some ''home'' # Some ''2024-01-01'' # Some ''00:00''
         # Some ''2024-01-01'' # Some ''23:59'' # Some ''2'' # ?rest"
    by (simp add: example_world_def edit_answers_def)
  have b: "\<exists>s \<in> set (scenarios ?app). Scenario.name s = ''scenario-1''"
    by (simp add: example_app_def example_scenario_def)
  have c: "Date_parse ?h (''2024-01-01'' @ ''T'' @ ''00:00'') = Date 1704067200000"
    by (simp add: catalog_host_def example_host_def)
  have d: "Date_parse ?h (''2024-01-01'' @ ''T'' @ ''23:59'') = Date 1704153540000"
    by (simp add: catalog_host_def example_host_def)
  have e: "possibleAppliances ?app = []"
    by simp
  have n: "''scenario-1'' \<noteq> []" "''2024-01-01'' \<noteq> []" "''00:00'' \<noteq> []" "''23:59'' \<noteq> []"
    by simp_all
  from editScenario_empty_catalog [OF a n(1) n(2) n(3) n(2) n(4) b c d e] a b c d e
  show ?thesis by blast
qed

lemma deleteScenario_keeps_controller:
  "fst (snd (deleteScenario h (app, w))) = app"
  by (simp add: deleteScenario_def split_def Let_def split: option.splits)

text \<open>
  C1 at a controller that holds \<open>scenario-1\<close>, with that name given to
  \<open>deleteScenario\<close>: the filtered list that is returned is empty and the deletion is
  reported, but the controller still holds \<open>scenario-1\<close>, and \<open>listScenarios\<close>
  run on it afterwards prints that scenario.
\<close>

theorem deleteScenario_scenario_remains:
  "fst (deleteScenario (catalog_host (JArray []))
          (example_app, example_world [Some ''scenario-1''])) = Some [] \<and>
   last (stdout (snd (snd (deleteScenario (catalog_host (JArray []))
          (example_app, example_world [Some ''scenario-1''])))))
     = Log ''Scenario scenario-1 deleted.'' \<and>
   scenarios (fst (snd (deleteScenario (catalog_host (JArray []))
          (example_app, example_world [Some ''scenario-1''])))) = [example_scenario ''scenario-1'' []] \<and>
   stdout (listScenarios (catalog_host (JArray []))
             (fst (snd (deleteScenario (catalog_host (JArray []))
                (example_app, example_world [Some ''scenario-1'']))))
             (example_world []))
     = [Log (nl @ ''Scenarios:''),
        Log (''1. Scenario: scenario-1: Household: ASIA, ''
               @ ''1/1/2024, 12:00:00 AM - 1/1/2024, 12:00:00 AM,'' @ nl @ ''.'')]"
proof -
  let ?h = "catalog_host (JArray [])"
  let ?w = "example_world [Some ''scenario-1'']"
  have s1: "stdin (listScenarios ?h example_app ?w) = [Some ''scenario-1'']"
    by (simp add: stdin_listScenarios example_world_def)
  have p: "fst (prompt ''Enter the name of the scenario to delete:'' (listScenarios ?h example_app ?w))
      = Some ''scenario-1''"
    using prompt_answer [OF s1] by simp
  have f: "find (\<lambda>s. Scenario.name s = ''scenario-1'') (scenarios example_app)
      = Some (example_scenario ''scenario-1'' [])"
    by (simp add: example_app_def example_scenario_def)
  have len: "length (scenarios example_app) \<noteq> 0"
    by (simp add: example_app_def)
  have run: "deleteScenario ?h (example_app, ?w) =
      (Some [], example_app,
       console_log ''Scenario scenario-1 deleted.''
         (snd (prompt ''Enter the name of the scenario to delete:''
            (listScenarios ?h example_app ?w))))"
    using p f len
    by (simp add: deleteScenario_def split_def Let_def falsy_def text_of_def)
       (simp add: example_app_def example_scenario_def)
  have listed: "stdout (listScenarios ?h example_app (example_world []))
     = [Log (nl @ ''Scenarios:''),
        Log (''1. Scenario: scenario-1: Household: ASIA, ''
               @ ''1/1/2024, 12:00:00 AM - 1/1/2024, 12:00:00 AM,'' @ nl @ ''.'')]"
    by (simp add: listScenarios_def example_app_def example_scenario_def example_world_def
          console_log_def Scenario_toString_def Household_toString_def TimeWindow_toString_def
          catalog_host_def example_host_def nat_toString.simps)
  from run listed show ?thesis by (simp add: console_log_def example_app_def)
qed

end
